theory Spec2Isabelle
  imports
    Main
    "HOL-Library.List_Lexorder"
    "HOL-Library.Multiset"
    "HOL-Library.Sublist"
    "HOL-Library.Word"
begin

section \<open>Strings of the comparison tool\<close>

text \<open>
  A Python \<open>str\<close> is a sequence of Unicode code points. A code point is a natural
  number, a string a list of them; the order on strings is Python's: lexicographic by
  code point, a proper prefix being smaller (the list order of
  \<open>HOL-Library.List_Lexorder\<close>).
\<close>

type_synonym ustr = "nat list"

definition ustr_of :: "string \<Rightarrow> ustr" where
  "ustr_of s = map of_char s"

text \<open>
  \<open>str.strip()\<close> without argument removes the code points for which \<open>str.isspace\<close>
  holds; \<open>str.splitlines()\<close> breaks at the line boundaries of Python's documentation.
\<close>

definition is_space :: "nat \<Rightarrow> bool" where
  "is_space c \<longleftrightarrow>
     (9 \<le> c \<and> c \<le> 13) \<or> (28 \<le> c \<and> c \<le> 32) \<or> c = 133 \<or> c = 160 \<or> c = 5760 \<or>
     (8192 \<le> c \<and> c \<le> 8202) \<or> c = 8232 \<or> c = 8233 \<or> c = 8239 \<or> c = 8287 \<or> c = 12288"

definition is_linebreak :: "nat \<Rightarrow> bool" where
  "is_linebreak c \<longleftrightarrow>
     (10 \<le> c \<and> c \<le> 13) \<or> (28 \<le> c \<and> c \<le> 30) \<or> c = 133 \<or> c = 8232 \<or> c = 8233"

definition strip :: "ustr \<Rightarrow> ustr" where
  "strip s = rev (dropWhile is_space (rev (dropWhile is_space s)))"

text \<open>
  \<open>splitlines_from cur s\<close>: the lines of \<open>s\<close>, where \<open>cur\<close> is the part of the current
  line already read. A carriage return followed by a line feed is one boundary; no
  line is produced after the last boundary when nothing follows it.
\<close>

fun splitlines_from :: "ustr \<Rightarrow> ustr \<Rightarrow> ustr list" where
  "splitlines_from cur [] = (if cur = [] then [] else [cur])"
| "splitlines_from cur (c # cs) =
     (if is_linebreak c then
        (case cs of
           [] \<Rightarrow> [cur]
         | d # ds \<Rightarrow>
             if c = 13 \<and> d = 10 then cur # splitlines_from [] ds
             else cur # splitlines_from [] cs)
      else splitlines_from (cur @ [c]) cs)"

definition splitlines :: "ustr \<Rightarrow> ustr list" where
  "splitlines s = splitlines_from [] s"

text \<open>
  \<open>str.lower\<close> is Unicode's full lowercasing: it is not a map over the code points
  (a capital sigma becomes one of two letters by its position, a dotted capital I
  becomes two code points). The comparison takes it as the function \<open>lower\<close>, and what
  is proved holds for every such function. On strings of ASCII code points it is
  \<open>ascii_lower\<close>, which the concrete runs use.
\<close>

definition ascii_lower :: "ustr \<Rightarrow> ustr" where
  "ascii_lower s = map (\<lambda>c. if 65 \<le> c \<and> c \<le> 90 then c + 32 else c) s"

section \<open>Core logic\<close>

text \<open>
  \<open>parse_pokemon_list\<close>: \<open>None\<close> is Python's \<open>None\<close>; \<open>not text\<close> holds of it and of the
  empty string.
\<close>

definition parse_pokemon_list :: "ustr option \<Rightarrow> ustr list" where
  "parse_pokemon_list text =
     (case text of
        None \<Rightarrow> []
      | Some s \<Rightarrow>
          if s = [] then []
          else map strip (filter (\<lambda>line. strip line \<noteq> []) (splitlines s)))"

text \<open>
  The scan of \<open>compare_lists\<close> over the checklist. The state is the pair of
  \<open>missing_pokemon\<close> (a list, appended to) and \<open>seen_missing_lower\<close> (a set, only
  tested for membership and added to).
\<close>

definition owned_names_lower_set :: "(ustr \<Rightarrow> ustr) \<Rightarrow> ustr list \<Rightarrow> ustr set" where
  "owned_names_lower_set lower owned_names = set (map lower owned_names)"

fun scan_checklist ::
  "(ustr \<Rightarrow> ustr) \<Rightarrow> ustr set \<Rightarrow> ustr list \<Rightarrow> ustr list \<times> ustr set \<Rightarrow> ustr list \<times> ustr set"
where
  "scan_checklist lower owned [] st = st"
| "scan_checklist lower owned (name # names) (missing, seen) =
     (let name_lower = lower name in
      if name_lower \<notin> owned \<and> name_lower \<notin> seen
      then scan_checklist lower owned names (missing @ [name], insert name_lower seen)
      else scan_checklist lower owned names (missing, seen))"

text \<open>
  \<open>missing_pokemon\<close>: the list of that name when the scan and the sort of
  \<open>compare_lists\<close> are done. \<open>list.sort(key=str.lower)\<close> is a stable sort by the key.
\<close>

definition missing_pokemon :: "(ustr \<Rightarrow> ustr) \<Rightarrow> ustr list \<Rightarrow> ustr list \<Rightarrow> ustr list" where
  "missing_pokemon lower owned_names checklist_names =
     sort_key lower
       (fst (scan_checklist lower (owned_names_lower_set lower owned_names)
               checklist_names ([], {})))"

section \<open>Rendering the result\<close>

text \<open>\<open>str(count)\<close> inside the f-string: the decimal digits of a natural number.\<close>

fun str_of_nat :: "nat \<Rightarrow> ustr" where
  "str_of_nat n = (if n < 10 then [48 + n] else str_of_nat (n div 10) @ [48 + n mod 10])"

declare str_of_nat.simps [simp del]

text \<open>\<open>sep.join(lines)\<close>.\<close>

fun join :: "ustr \<Rightarrow> ustr list \<Rightarrow> ustr" where
  "join sep [] = []"
| "join sep [x] = x"
| "join sep (x # y # ys) = x @ sep @ join sep (y # ys)"

text \<open>
  \<open>html.escape\<close> with its default \<open>quote=True\<close>: five successive \<open>str.replace\<close> calls of a
  single character, the ampersand first.
\<close>

definition replace_char :: "nat \<Rightarrow> ustr \<Rightarrow> ustr \<Rightarrow> ustr" where
  "replace_char c new s = concat (map (\<lambda>d. if d = c then new else [d]) s)"

definition escape :: "ustr \<Rightarrow> ustr" where
  "escape s =
     replace_char 39 (ustr_of ''&#x27;'')
       (replace_char 34 (ustr_of ''&quot;'')
          (replace_char 62 (ustr_of ''&gt;'')
             (replace_char 60 (ustr_of ''&lt;'')
                (replace_char 38 (ustr_of ''&amp;'') s))))"

text \<open>
  The page returned is the constant template \<open>HTML_UI\<close> with its one format field
  \<open>result_block\<close> filled in; a page is given by that field.
\<close>

datatype html_page = HTML_UI_format (result_block: ustr)

definition error_message :: ustr where
  "error_message =
     ustr_of ''Error: Please provide content for both the '' @ [39] @ ustr_of ''Owned'' @ [39] @
     ustr_of '' list and the '' @ [39] @ ustr_of ''List to Check'' @ [39] @ ustr_of ''.''"

definition missing_header :: "nat \<Rightarrow> ustr" where
  "missing_header cnt =
     ustr_of ''You are missing '' @ str_of_nat cnt @ ustr_of '' Pok'' @ [233] @
     ustr_of ''mon from the list:''"

definition congratulations :: ustr where
  "congratulations =
     ustr_of ''Congratulations! You own every Pok'' @ [233] @ ustr_of ''mon from the list.''"

definition result_lines :: "ustr list \<Rightarrow> ustr list" where
  "result_lines missing =
     (let cnt = length missing in
      if cnt > 0 then [missing_header cnt, []] @ missing
      else [congratulations])"

text \<open>
  \<open>compare_contents\<close> is \<open>compare_lists\<close> from the point where both contents have been
  obtained (the validation of the contents, the parsing, the scan, the sort and the
  rendering).
\<close>

definition compare_contents :: "(ustr \<Rightarrow> ustr) \<Rightarrow> ustr \<Rightarrow> ustr \<Rightarrow> html_page" where
  "compare_contents lower owned_content checklist_content =
     (if owned_content = [] \<or> checklist_content = [] then
        HTML_UI_format (escape error_message)
      else
        let owned_names = parse_pokemon_list (Some owned_content);
            checklist_names = parse_pokemon_list (Some checklist_content);
            missing = missing_pokemon lower owned_names checklist_names
        in HTML_UI_format (escape (join [10] (result_lines missing))))"

section \<open>The sets as the interpreter holds them\<close>

text \<open>
  A Python \<open>set\<close> is a hash table: the order in which it holds its elements depends on
  the hash seed of the process and on the history of the table, a state outside the
  inputs of the comparison. A table is the list of the elements in that order, and
  \<open>layout\<close> is the outside state: it rearranges the table when an element is added (a
  result that is not a rearrangement is no table, and the element is then appended).
  \<open>table_add\<close> is \<open>set.add\<close>, membership in \<open>set t\<close> is \<open>in\<close>.
\<close>

type_synonym table = "ustr list"

definition table_add :: "(table \<Rightarrow> table) \<Rightarrow> ustr \<Rightarrow> table \<Rightarrow> table" where
  "table_add layout x t =
     (if x \<in> set t then t
      else if mset (layout (t @ [x])) = mset (t @ [x]) then layout (t @ [x])
      else t @ [x])"

text \<open>The set comprehension of \<open>compare_lists\<close> over the owned names, on tables.\<close>

fun owned_names_lower_table ::
  "(table \<Rightarrow> table) \<Rightarrow> (ustr \<Rightarrow> ustr) \<Rightarrow> ustr list \<Rightarrow> table \<Rightarrow> table"
where
  "owned_names_lower_table layout lower [] t = t"
| "owned_names_lower_table layout lower (name # names) t =
     owned_names_lower_table layout lower names (table_add layout (lower name) t)"

text \<open>The scan of \<open>compare_lists\<close> over the checklist, the two sets being tables.\<close>

fun scan_checklist_tables ::
  "(table \<Rightarrow> table) \<Rightarrow> (ustr \<Rightarrow> ustr) \<Rightarrow> table \<Rightarrow> ustr list \<Rightarrow> ustr list \<times> table
     \<Rightarrow> ustr list \<times> table"
where
  "scan_checklist_tables layout lower owned [] st = st"
| "scan_checklist_tables layout lower owned (name # names) (missing, seen) =
     (let name_lower = lower name in
      if name_lower \<notin> set owned \<and> name_lower \<notin> set seen
      then scan_checklist_tables layout lower owned names
             (missing @ [name], table_add layout name_lower seen)
      else scan_checklist_tables layout lower owned names (missing, seen))"

definition missing_pokemon_tables ::
  "(table \<Rightarrow> table) \<Rightarrow> (ustr \<Rightarrow> ustr) \<Rightarrow> ustr list \<Rightarrow> ustr list \<Rightarrow> ustr list"
where
  "missing_pokemon_tables layout lower owned_names checklist_names =
     sort_key lower
       (fst (scan_checklist_tables layout lower
               (owned_names_lower_table layout lower owned_names [])
               checklist_names ([], [])))"

definition compare_contents_tables ::
  "(table \<Rightarrow> table) \<Rightarrow> (ustr \<Rightarrow> ustr) \<Rightarrow> ustr \<Rightarrow> ustr \<Rightarrow> html_page"
where
  "compare_contents_tables layout lower owned_content checklist_content =
     (if owned_content = [] \<or> checklist_content = [] then
        HTML_UI_format (escape error_message)
      else
        let owned_names = parse_pokemon_list (Some owned_content);
            checklist_names = parse_pokemon_list (Some checklist_content);
            missing = missing_pokemon_tables layout lower owned_names checklist_names
        in HTML_UI_format (escape (join [10] (result_lines missing))))"

section \<open>Obtaining the content\<close>

text \<open>
  Exceptions are values. \<open>OSError\<close>, \<open>ValueError\<close> and \<open>UnicodeDecodeError\<close> are instances
  of Python's \<open>Exception\<close>, which is what \<open>except Exception\<close> catches: an error of reading
  the upload or of decoding it. \<open>CancelledError\<close> (of asyncio, raised in an awaited
  call when the request is cancelled), \<open>KeyboardInterrupt\<close> and \<open>SystemExit\<close> are
  instances of \<open>BaseException\<close> only, and no \<open>except Exception\<close> catches them.
\<close>

datatype py_exception =
  OSError | ValueError | UnicodeDecodeError | CancelledError | KeyboardInterrupt | SystemExit

fun is_Exception :: "py_exception \<Rightarrow> bool" where
  "is_Exception OSError = True"
| "is_Exception ValueError = True"
| "is_Exception UnicodeDecodeError = True"
| "is_Exception CancelledError = False"
| "is_Exception KeyboardInterrupt = False"
| "is_Exception SystemExit = False"

type_synonym byte = "8 word"

datatype errors = Strict | Ignore

text \<open>
  One step of the UTF-8 decoder at the byte \<open>b\<close> followed by \<open>bs\<close>: either a code point
  and the bytes after its encoding, or an undecodable part and the bytes at which
  decoding resumes when the part is ignored (after the start byte when that byte or
  its first continuation is wrong, after the well-formed bytes read so far when a
  later continuation is wrong, at the end when the input stops inside a sequence).
\<close>

datatype utf8_step = Decoded nat "byte list" | Undecodable "byte list"

definition is_continuation :: "byte \<Rightarrow> bool" where
  "is_continuation b \<longleftrightarrow> 128 \<le> unat b \<and> unat b < 192"

definition utf8_step :: "byte \<Rightarrow> byte list \<Rightarrow> utf8_step" where
  "utf8_step b bs =
     (let ch = unat b in
      if ch < 128 then Decoded ch bs
      else if ch < 194 then Undecodable bs
      else if ch < 224 then
        (case bs of
           [] \<Rightarrow> Undecodable []
         | b2 # r \<Rightarrow>
             if is_continuation b2
             then Decoded ((ch mod 32) * 64 + unat b2 mod 64) r
             else Undecodable bs)
      else if ch < 240 then
        (case bs of
           [] \<Rightarrow> Undecodable []
         | b2 # r \<Rightarrow>
             if \<not> is_continuation b2 \<or> (if unat b2 < 160 then ch = 224 else ch = 237)
             then Undecodable bs
             else
               (case r of
                  [] \<Rightarrow> Undecodable []
                | b3 # r' \<Rightarrow>
                    if is_continuation b3
                    then Decoded ((ch mod 16) * 4096 + (unat b2 mod 64) * 64 + unat b3 mod 64) r'
                    else Undecodable r))
      else if ch < 245 then
        (case bs of
           [] \<Rightarrow> Undecodable []
         | b2 # r \<Rightarrow>
             if \<not> is_continuation b2 \<or> (if unat b2 < 144 then ch = 240 else ch = 244)
             then Undecodable bs
             else
               (case r of
                  [] \<Rightarrow> Undecodable []
                | b3 # r' \<Rightarrow>
                    if \<not> is_continuation b3 then Undecodable r
                    else
                      (case r' of
                         [] \<Rightarrow> Undecodable []
                       | b4 # r'' \<Rightarrow>
                           if is_continuation b4
                           then Decoded ((ch mod 8) * 262144 + (unat b2 mod 64) * 4096 +
                                         (unat b3 mod 64) * 64 + unat b4 mod 64) r''
                           else Undecodable r')))
      else Undecodable bs)"

text \<open>
  \<open>bytes.decode("utf-8", errors=...)\<close>: with \<open>strict\<close> the first undecodable part raises
  \<open>UnicodeDecodeError\<close>, with \<open>ignore\<close> it is skipped.
\<close>

function decode_utf8 :: "errors \<Rightarrow> byte list \<Rightarrow> py_exception + ustr" where
  "decode_utf8 errors [] = Inr []"
| "decode_utf8 errors (b # bs) =
     (case utf8_step b bs of
        Decoded c rest \<Rightarrow>
          (case decode_utf8 errors rest of Inl e \<Rightarrow> Inl e | Inr s \<Rightarrow> Inr (c # s))
      | Undecodable rest \<Rightarrow>
          (case errors of
             Strict \<Rightarrow> Inl UnicodeDecodeError
           | Ignore \<Rightarrow> decode_utf8 errors rest))"
  by pat_completeness auto
termination
proof (relation "measure (\<lambda>(errors, bs). length bs)")
  show "wf (measure (\<lambda>(errors, bs). length bs))"
    by simp
next
  fix errors :: errors and b :: byte and bs rest :: "byte list" and c :: nat
  assume "utf8_step b bs = Decoded c rest"
  then have "length rest \<le> length bs"
    by (auto simp: utf8_step_def Let_def split: if_splits list.splits)
  then show "((errors, rest), errors, b # bs) \<in> measure (\<lambda>(errors, bs). length bs)"
    by simp
next
  fix errors :: errors and b :: byte and bs rest :: "byte list"
  assume "utf8_step b bs = Undecodable rest"
  then have "length rest \<le> length bs"
    by (auto simp: utf8_step_def Let_def split: if_splits list.splits)
  then show "((errors, rest), errors, b # bs) \<in> measure (\<lambda>(errors, bs). length bs)"
    by simp
qed

text \<open>
  An upload: its \<open>filename\<close> (which may be absent or empty) and what awaiting \<open>read()\<close>
  gives, the bytes or an exception.
\<close>

record upload_file =
  filename :: "ustr option"
  read :: "py_exception + byte list"

text \<open>\<open>text or ""\<close>.\<close>

definition text_or_empty :: "ustr option \<Rightarrow> ustr" where
  "text_or_empty text = (case text of None \<Rightarrow> [] | Some t \<Rightarrow> t)"

text \<open>
  \<open>get_content\<close>: the \<open>try\<close> block is the read followed by the decoding; the handler
  of \<open>except Exception\<close> (which also logs the exception, with no effect on the value
  returned) yields the pasted text; an exception that is not an instance of
  \<open>Exception\<close> is not handled and leaves the function, as the value \<open>Inl\<close>.
\<close>

definition get_content :: "upload_file option \<Rightarrow> ustr option \<Rightarrow> py_exception + ustr" where
  "get_content file text =
     (case file of
        None \<Rightarrow> Inr (text_or_empty text)
      | Some f \<Rightarrow>
          if filename f \<noteq> None \<and> filename f \<noteq> Some [] then
            (case (case read f of Inl e \<Rightarrow> Inl e | Inr b \<Rightarrow> decode_utf8 Ignore b) of
               Inr content \<Rightarrow> Inr content
             | Inl e \<Rightarrow> if is_Exception e then Inr (text_or_empty text) else Inl e)
          else Inr (text_or_empty text))"

definition compare_lists ::
  "(ustr \<Rightarrow> ustr) \<Rightarrow> upload_file option \<Rightarrow> ustr option \<Rightarrow> upload_file option \<Rightarrow> ustr option
     \<Rightarrow> py_exception + html_page"
where
  "compare_lists lower owned_file owned_text checklist_file checklist_text =
     (case get_content owned_file owned_text of
        Inl e \<Rightarrow> Inl e
      | Inr owned_content \<Rightarrow>
          (case get_content checklist_file checklist_text of
             Inl e \<Rightarrow> Inl e
           | Inr checklist_content \<Rightarrow>
               Inr (compare_contents lower owned_content checklist_content)))"

section \<open>The specification's words\<close>

text \<open>
  The specification's parser: split on line boundaries, trim each line, discard the
  lines that are empty after trimming; empty or absent input gives no name.
\<close>

definition spec_parse :: "ustr option \<Rightarrow> ustr list" where
  "spec_parse text =
     (case text of
        None \<Rightarrow> []
      | Some s \<Rightarrow> filter (\<lambda>line. line \<noteq> []) (map strip (splitlines s)))"

text \<open>
  The specification's deduplication by lowercase form: of the entries with one
  lowercase form, the first stays.
\<close>

fun dedup_by_lower :: "(ustr \<Rightarrow> ustr) \<Rightarrow> ustr list \<Rightarrow> ustr list" where
  "dedup_by_lower lower [] = []"
| "dedup_by_lower lower (x # xs) =
     x # dedup_by_lower lower (filter (\<lambda>y. lower y \<noteq> lower x) xs)"

section \<open>The scan and the specification's deduplication\<close>

lemma scan_checklist_eq:
  "scan_checklist lower owned names (missing, seen) =
     (missing @ dedup_by_lower lower (filter (\<lambda>n. lower n \<notin> owned \<union> seen) names),
      seen \<union> lower ` set (dedup_by_lower lower (filter (\<lambda>n. lower n \<notin> owned \<union> seen) names)))"
proof (induction names arbitrary: missing seen)
  case Nil
  show ?case by simp
next
  case (Cons name names)
  show ?case
  proof (cases "lower name \<notin> owned \<and> lower name \<notin> seen")
    case True
    let ?P = "\<lambda>n. lower n \<notin> owned \<union> seen"
    let ?Q = "\<lambda>n. lower n \<notin> owned \<union> insert (lower name) seen"
    have f: "filter (\<lambda>y. lower y \<noteq> lower name) (filter ?P names) = filter ?Q names"
      by (auto intro: filter_cong)
    have "filter ?P (name # names) = name # filter ?P names"
      using True by simp
    then have "dedup_by_lower lower (filter ?P (name # names)) =
               name # dedup_by_lower lower (filter (\<lambda>y. lower y \<noteq> lower name) (filter ?P names))"
      by (simp only: dedup_by_lower.simps)
    then have rhs: "dedup_by_lower lower (filter ?P (name # names)) =
               name # dedup_by_lower lower (filter ?Q names)"
      by (simp only: f)
    have step: "scan_checklist lower owned (name # names) (missing, seen) =
                scan_checklist lower owned names (missing @ [name], insert (lower name) seen)"
      using True by (simp add: Let_def)
    show ?thesis
      unfolding step Cons.IH rhs by simp
  next
    case False
    then show ?thesis
      by (auto simp: Cons.IH Let_def)
  qed
qed

lemma set_dedup_by_lower_subset: "set (dedup_by_lower lower xs) \<subseteq> set xs"
  by (induction lower xs rule: dedup_by_lower.induct) auto

lemma distinct_dedup_by_lower: "distinct (map lower (dedup_by_lower lower xs))"
proof (induction lower xs rule: dedup_by_lower.induct)
  case (1 lower)
  show ?case by simp
next
  case (2 lower x xs)
  have "lower x \<notin> lower ` set (dedup_by_lower lower (filter (\<lambda>y. lower y \<noteq> lower x) xs))"
    using set_dedup_by_lower_subset [of lower "filter (\<lambda>y. lower y \<noteq> lower x) xs"] by auto
  with 2 show ?case by simp
qed

lemma filter_dedup_by_lower:
  "filter (\<lambda>x. lower x = k) (dedup_by_lower lower xs) =
     (case find (\<lambda>x. lower x = k) xs of None \<Rightarrow> [] | Some m \<Rightarrow> [m])"
proof (induction lower xs rule: dedup_by_lower.induct)
  case (1 lower)
  show ?case by simp
next
  case (2 lower x xs)
  show ?case
  proof (cases "lower x = k")
    case True
    have "filter (\<lambda>x. lower x = k) (dedup_by_lower lower (filter (\<lambda>y. lower y \<noteq> lower x) xs)) = []"
      using set_dedup_by_lower_subset [of lower "filter (\<lambda>y. lower y \<noteq> lower x) xs"] True
      by (auto simp: filter_empty_conv)
    with True show ?thesis by simp
  next
    case False
    have "find (\<lambda>x. lower x = k) (filter (\<lambda>y. lower y \<noteq> lower x) xs) = find (\<lambda>x. lower x = k) xs"
      using False by (induction xs) auto
    with False 2 show ?thesis by simp
  qed
qed

lemma missing_pokemon_eq:
  "missing_pokemon lower owned_names checklist_names =
     sort_key lower (dedup_by_lower lower
       (filter (\<lambda>n. lower n \<notin> owned_names_lower_set lower owned_names) checklist_names))"
  by (simp add: missing_pokemon_def scan_checklist_eq)


lemma find_filter_not_owned:
  "k \<notin> owned \<Longrightarrow>
   find (\<lambda>x. lower x = k) (filter (\<lambda>n. lower n \<notin> owned) names) = find (\<lambda>x. lower x = k) names"
  by (induction names) auto

lemma distinct_map_sort_key:
  "distinct (map f (sort_key g xs)) = distinct (map f xs)"
proof -
  have "mset (map f (sort_key g xs)) = mset (map f xs)"
    by simp
  then show ?thesis
    by (rule mset_eq_imp_distinct_iff)
qed

section \<open>The missing list\<close>

text \<open>
  Claim C1. For all owned and checklist sequences, the lowercase form of every element
  of the missing list is absent from the set of lowercase forms of the owned names,
  and no two elements of the missing list have the same lowercase form.
\<close>

theorem missing_pokemon_invariant:
  "(\<forall>name \<in> set (missing_pokemon lower owned_names checklist_names).
      lower name \<notin> owned_names_lower_set lower owned_names) \<and>
   distinct (map lower (missing_pokemon lower owned_names checklist_names))"
proof
  show "\<forall>name \<in> set (missing_pokemon lower owned_names checklist_names).
      lower name \<notin> owned_names_lower_set lower owned_names"
    using set_dedup_by_lower_subset
      [of lower "filter (\<lambda>n. lower n \<notin> owned_names_lower_set lower owned_names) checklist_names"]
    by (auto simp: missing_pokemon_eq)
next
  show "distinct (map lower (missing_pokemon lower owned_names checklist_names))"
    by (simp only: missing_pokemon_eq distinct_map_sort_key distinct_dedup_by_lower)
qed

text \<open>The specification's first scenario, and the invariant on it.\<close>

theorem missing_pokemon_invariant_witness:
  "missing_pokemon ascii_lower (map ustr_of [''Pikachu'', ''Bulbasaur''])
     (map ustr_of [''pikachu'', ''Charmander'', ''BULBASAUR'', ''Charmander'']) =
     [ustr_of ''Charmander''] \<and>
   ascii_lower (ustr_of ''Charmander'') \<notin>
     owned_names_lower_set ascii_lower (map ustr_of [''Pikachu'', ''Bulbasaur'']) \<and>
   distinct (map ascii_lower (missing_pokemon ascii_lower (map ustr_of [''Pikachu'', ''Bulbasaur''])
     (map ustr_of [''pikachu'', ''Charmander'', ''BULBASAUR'', ''Charmander''])))"
  using missing_pokemon_invariant [of ascii_lower "map ustr_of [''Pikachu'', ''Bulbasaur'']"
     "map ustr_of [''pikachu'', ''Charmander'', ''BULBASAUR'', ''Charmander'']"]
  by (simp add: missing_pokemon_def owned_names_lower_set_def ustr_of_def ascii_lower_def Let_def)

text \<open>
  Claim C3. For all owned and checklist sequences, the missing list is sorted
  ascending by the lowercase form of its names.
\<close>

theorem missing_pokemon_sorted:
  "sorted (map lower (missing_pokemon lower owned_names checklist_names))"
  by (simp add: missing_pokemon_def)

text \<open>A checklist out of order, with an owned name and a duplicate.\<close>

theorem missing_pokemon_sorted_witness:
  "missing_pokemon ascii_lower [ustr_of ''eevee'']
     (map ustr_of [''b'', ''Eevee'', ''a'', ''C'', ''B'']) = map ustr_of [''a'', ''b'', ''C''] \<and>
   sorted (map ascii_lower (missing_pokemon ascii_lower [ustr_of ''eevee'']
     (map ustr_of [''b'', ''Eevee'', ''a'', ''C'', ''B''])))"
  using missing_pokemon_sorted [of ascii_lower "[ustr_of ''eevee'']"
     "map ustr_of [''b'', ''Eevee'', ''a'', ''C'', ''B'']"]
  by (simp add: missing_pokemon_def owned_names_lower_set_def ustr_of_def ascii_lower_def Let_def)

text \<open>
  Claim C6. With no owned name the missing list is the checklist deduplicated by
  lowercase form and sorted by lowercase form; with an empty checklist it is empty.
\<close>

theorem missing_pokemon_empty_arguments:
  "missing_pokemon lower [] checklist_names = sort_key lower (dedup_by_lower lower checklist_names) \<and>
   missing_pokemon lower owned_names [] = []"
  by (simp add: missing_pokemon_eq owned_names_lower_set_def)

text \<open>A checklist with two duplicated lowercase forms.\<close>

theorem missing_pokemon_empty_arguments_witness:
  "missing_pokemon ascii_lower [] (map ustr_of [''b'', ''B'', ''a'', ''C'', ''c'']) =
     map ustr_of [''a'', ''b'', ''C''] \<and>
   dedup_by_lower ascii_lower (map ustr_of [''b'', ''B'', ''a'', ''C'', ''c'']) =
     map ustr_of [''b'', ''a'', ''C''] \<and>
   missing_pokemon ascii_lower [ustr_of ''Mew''] [] = []"
  using missing_pokemon_empty_arguments
    [of ascii_lower "map ustr_of [''b'', ''B'', ''a'', ''C'', ''c'']" "[ustr_of ''Mew'']"]
  by (simp add: ustr_of_def ascii_lower_def)

text \<open>
  Claim C7. When the checklist has entries of lowercase form \<open>k\<close>, the first of them
  being \<open>first\<close>, and \<open>k\<close> is not the lowercase form of an owned name, the missing list
  has exactly one entry of lowercase form \<open>k\<close>, and it is \<open>first\<close> in its original
  casing: the later occurrences are not emitted.
\<close>

theorem first_occurrence_emitted_once:
  assumes "find (\<lambda>x. lower x = k) checklist_names = Some first"
    and "k \<notin> owned_names_lower_set lower owned_names"
  shows "filter (\<lambda>x. lower x = k) (missing_pokemon lower owned_names checklist_names) = [first]"
proof -
  let ?kept = "filter (\<lambda>n. lower n \<notin> owned_names_lower_set lower owned_names) checklist_names"
  have "find (\<lambda>x. lower x = k) ?kept = Some first"
    using assms by (simp add: find_filter_not_owned)
  then have "filter (\<lambda>x. lower x = k) (dedup_by_lower lower ?kept) = [first]"
    by (simp add: filter_dedup_by_lower)
  then show ?thesis
    by (simp add: missing_pokemon_eq filter_sort)
qed

text \<open>Three spellings of one name: the first spelling is the one reported.\<close>

theorem first_occurrence_emitted_once_witness:
  "find (\<lambda>x. ascii_lower x = ustr_of ''abra'') (map ustr_of [''Zubat'', ''aBra'', ''ABRA'', ''abra'']) =
     Some (ustr_of ''aBra'') \<and>
   ustr_of ''abra'' \<notin> owned_names_lower_set ascii_lower [ustr_of ''Mew''] \<and>
   filter (\<lambda>x. ascii_lower x = ustr_of ''abra'')
     (missing_pokemon ascii_lower [ustr_of ''Mew''] (map ustr_of [''Zubat'', ''aBra'', ''ABRA'', ''abra''])) =
     [ustr_of ''aBra''] \<and>
   missing_pokemon ascii_lower [ustr_of ''Mew''] (map ustr_of [''Zubat'', ''aBra'', ''ABRA'', ''abra'']) =
     map ustr_of [''aBra'', ''Zubat'']"
proof -
  have f: "find (\<lambda>x. ascii_lower x = ustr_of ''abra'') (map ustr_of [''Zubat'', ''aBra'', ''ABRA'', ''abra'']) =
     Some (ustr_of ''aBra'')"
    by (simp add: ustr_of_def ascii_lower_def)
  have o: "ustr_of ''abra'' \<notin> owned_names_lower_set ascii_lower [ustr_of ''Mew'']"
    by (simp add: owned_names_lower_set_def ustr_of_def ascii_lower_def)
  have m: "missing_pokemon ascii_lower [ustr_of ''Mew''] (map ustr_of [''Zubat'', ''aBra'', ''ABRA'', ''abra'']) =
     map ustr_of [''aBra'', ''Zubat'']"
    by (simp add: missing_pokemon_def owned_names_lower_set_def ustr_of_def ascii_lower_def Let_def)
  show ?thesis
    using first_occurrence_emitted_once [OF f o] f o m by simp
qed

section \<open>The parser\<close>

lemma strip_Nil_iff: "strip s = [] \<longleftrightarrow> (\<forall>c \<in> set s. is_space c)"
proof -
  let ?t = "dropWhile is_space s"
  have "strip s = [] \<longleftrightarrow> (\<forall>c \<in> set ?t. is_space c)"
    by (simp add: strip_def dropWhile_eq_Nil_conv)
  also have "\<dots> \<longleftrightarrow> ?t = []"
  proof
    assume a: "\<forall>c \<in> set ?t. is_space c"
    show "?t = []"
    proof (rule ccontr)
      assume ne: "?t \<noteq> []"
      then have "\<not> is_space (hd ?t)" by (rule hd_dropWhile)
      moreover have "hd ?t \<in> set ?t" using ne by simp
      ultimately show False using a by blast
    qed
  next
    assume "?t = []"
    then show "\<forall>c \<in> set ?t. is_space c" by (auto dest: set_dropWhileD)
  qed
  also have "\<dots> \<longleftrightarrow> (\<forall>c \<in> set s. is_space c)"
    by (simp add: dropWhile_eq_Nil_conv)
  finally show ?thesis .
qed

lemma strip_no_leading_space: "strip s \<noteq> [] \<Longrightarrow> \<not> is_space (hd (strip s))"
proof -
  assume ne: "strip s \<noteq> []"
  let ?t = "dropWhile is_space s"
  have t: "?t \<noteq> []" using ne by (auto simp: strip_def dest: set_dropWhileD)
  then have h: "\<not> is_space (hd ?t)" by (rule hd_dropWhile)
  obtain ys zs where yz: "rev ?t = ys @ zs" "dropWhile is_space (rev ?t) = zs"
    by (metis takeWhile_dropWhile_id)
  have "?t = rev zs @ rev ys" using yz(1) by (metis rev_append rev_rev_ident)
  moreover have "rev zs \<noteq> []" using ne yz(2) by (simp add: strip_def)
  ultimately have "hd (rev zs) = hd ?t" by simp
  with h yz(2) show ?thesis by (simp add: strip_def)
qed

lemma strip_no_trailing_space: "strip s \<noteq> [] \<Longrightarrow> \<not> is_space (last (strip s))"
proof -
  assume ne: "strip s \<noteq> []"
  then have "dropWhile is_space (rev (dropWhile is_space s)) \<noteq> []"
    by (simp add: strip_def)
  then have "\<not> is_space (hd (dropWhile is_space (rev (dropWhile is_space s))))"
    by (rule hd_dropWhile)
  then show ?thesis
    using ne by (simp add: strip_def last_rev)
qed

lemma splitlines_from_elems:
  "line \<in> set (splitlines_from cur s) \<Longrightarrow> set line \<subseteq> set cur \<union> set s"
proof (induction cur s rule: splitlines_from.induct)
  case (1 cur)
  then show ?case by (auto split: if_splits)
next
  case (2 cur c cs)
  show ?case
  proof (cases "is_linebreak c")
    case False
    with 2 show ?thesis by auto
  next
    case True
    show ?thesis
    proof (cases cs)
      case Nil
      with True 2 show ?thesis by auto
    next
      case (Cons d ds)
      with True 2 show ?thesis by (auto split: if_splits)
    qed
  qed
qed

lemma parse_pokemon_list_eq_spec: "parse_pokemon_list text = spec_parse text"
proof (cases "text")
  case None
  then show ?thesis by (simp add: parse_pokemon_list_def spec_parse_def)
next
  case (Some s)
  have "map strip (filter (\<lambda>line. strip line \<noteq> []) (splitlines s)) =
        filter (\<lambda>line. line \<noteq> []) (map strip (splitlines s))"
    by (simp add: filter_map comp_def)
  moreover have "s = [] \<Longrightarrow> splitlines s = []"
    by (simp add: splitlines_def)
  ultimately show ?thesis
    using Some by (simp add: parse_pokemon_list_def spec_parse_def)
qed

lemma parse_pokemon_list_names:
  assumes "name \<in> set (parse_pokemon_list text)"
  shows "name \<noteq> [] \<and> \<not> is_space (hd name) \<and> \<not> is_space (last name)"
proof -
  from assms obtain line where "name = strip line" "strip line \<noteq> []"
    by (auto simp: parse_pokemon_list_def split: option.splits if_splits)
  then show ?thesis
    by (simp add: strip_no_leading_space strip_no_trailing_space)
qed

lemma parse_whitespace_only:
  assumes "\<forall>c \<in> set s. is_space c"
  shows "parse_pokemon_list (Some s) = []"
proof -
  have "strip line = []" if "line \<in> set (splitlines s)" for line
    using that assms splitlines_from_elems [of line "[]" s]
    by (auto simp: strip_Nil_iff splitlines_def)
  then have "filter (\<lambda>line. strip line \<noteq> []) (splitlines s) = []"
    by (simp add: filter_empty_conv)
  then show ?thesis
    by (simp add: parse_pokemon_list_def)
qed

lemma parse_example:
  "parse_pokemon_list (Some (ustr_of '' Pikachu  '' @ [10] @ ustr_of ''   '' @ [13, 10] @ ustr_of ''bulba saur'' @ [10])) =
     [ustr_of ''Pikachu'', ustr_of ''bulba saur'']"
  by (simp add: parse_pokemon_list_def splitlines_def ustr_of_def is_linebreak_def strip_def is_space_def)

text \<open>
  Claim C2. For every input, absent, empty or not, \<open>parse_pokemon_list\<close> returns the
  lines of the input, each trimmed of leading and trailing whitespace, without the
  lines that are empty once trimmed, in their order and casing; absent and empty input
  give the empty sequence. It has no failing path: it is a total function whose result
  is a list. No name returned is empty or begins or ends with whitespace.
\<close>

theorem parse_pokemon_list_spec:
  "parse_pokemon_list text = spec_parse text \<and>
   parse_pokemon_list None = [] \<and>
   parse_pokemon_list (Some []) = [] \<and>
   (\<forall>name \<in> set (parse_pokemon_list text).
      name \<noteq> [] \<and> \<not> is_space (hd name) \<and> \<not> is_space (last name))"
  using parse_pokemon_list_eq_spec [of "text"] parse_pokemon_list_names [of _ "text"]
  by (auto simp: parse_pokemon_list_def)

text \<open>Three lines, one of them blank, with a carriage return and line feed.\<close>

theorem parse_pokemon_list_spec_witness:
  "parse_pokemon_list (Some (ustr_of '' Pikachu  '' @ [10] @ ustr_of ''   '' @ [13, 10] @
     ustr_of ''bulba saur'' @ [10])) = [ustr_of ''Pikachu'', ustr_of ''bulba saur''] \<and>
   spec_parse (Some (ustr_of '' Pikachu  '' @ [10] @ ustr_of ''   '' @ [13, 10] @
     ustr_of ''bulba saur'' @ [10])) = [ustr_of ''Pikachu'', ustr_of ''bulba saur'']"
  using parse_pokemon_list_spec [of "Some (ustr_of '' Pikachu  '' @ [10] @ ustr_of ''   '' @
     [13, 10] @ ustr_of ''bulba saur'' @ [10])"] parse_example
  by simp

section \<open>Validation and rendering\<close>

lemma replace_char_Cons:
  "replace_char c new (d # s) = (if d = c then new else [d]) @ replace_char c new s"
  by (simp add: replace_char_def)

lemma escape_Cons_plain:
  assumes "c \<noteq> 38" "c \<noteq> 60" "c \<noteq> 62" "c \<noteq> 34" "c \<noteq> 39"
  shows "escape (c # s) = c # escape s"
  using assms by (simp add: escape_def replace_char_Cons)

lemma escape_error_message_hd: "hd (escape error_message) = 69"
  by (simp add: error_message_def ustr_of_def escape_Cons_plain)

lemma escape_result_block_hd:
  "hd (escape (join [10] (result_lines missing))) = 89 \<or>
   hd (escape (join [10] (result_lines missing))) = 67"
proof (cases missing)
  case Nil
  then show ?thesis
    by (simp add: result_lines_def congratulations_def ustr_of_def escape_Cons_plain)
next
  case (Cons name names)
  then show ?thesis
    by (simp add: result_lines_def missing_header_def ustr_of_def escape_Cons_plain)
qed

lemma result_block_not_error:
  "escape (join [10] (result_lines missing)) \<noteq> escape error_message"
  using escape_result_block_hd [of missing] escape_error_message_hd by auto

lemma compare_example:
  "compare_contents ascii_lower
     (ustr_of ''Pikachu'' @ [10] @ ustr_of ''Bulbasaur'')
     (ustr_of ''pikachu'' @ [10] @ ustr_of ''Charmander'' @ [13, 10] @ ustr_of ''BULBASAUR'' @ [10] @
      ustr_of ''Charmander'') =
   HTML_UI_format (ustr_of ''You are missing 1 Pok'' @ [233] @ ustr_of ''mon from the list:'' @
     [10, 10] @ ustr_of ''Charmander'')"
  by (simp add: compare_contents_def parse_pokemon_list_def splitlines_def ustr_of_def is_linebreak_def
      strip_def is_space_def missing_pokemon_def owned_names_lower_set_def ascii_lower_def Let_def
      result_lines_def missing_header_def str_of_nat.simps escape_def replace_char_def)

text \<open>
  Claim C4, as amended. A validation error is reported if and only if at least one of
  the owned content and the checklist content is empty; for every other pair of
  contents no validation error is reported and the comparison proceeds: the page is
  the rendering of the missing list of the two parsed contents.
\<close>

theorem validation_error_iff_some_content_empty:
  "(compare_contents lower owned_content checklist_content = HTML_UI_format (escape error_message)
     \<longleftrightarrow> owned_content = [] \<or> checklist_content = []) \<and>
   (owned_content \<noteq> [] \<and> checklist_content \<noteq> [] \<longrightarrow>
      compare_contents lower owned_content checklist_content =
        HTML_UI_format (escape (join [10] (result_lines
          (missing_pokemon lower (parse_pokemon_list (Some owned_content))
             (parse_pokemon_list (Some checklist_content)))))))"
  by (simp add: compare_contents_def Let_def result_block_not_error)

text \<open>
  Both contents given, the checklist content empty, both empty; and the page of the
  specification's first scenario.
\<close>

theorem validation_error_iff_some_content_empty_witness:
  "compare_contents ascii_lower (ustr_of ''Mew'') (ustr_of ''Pikachu'') \<noteq>
     HTML_UI_format (escape error_message) \<and>
   compare_contents ascii_lower (ustr_of ''Mew'') [] = HTML_UI_format (escape error_message) \<and>
   compare_contents ascii_lower [] [] = HTML_UI_format (escape error_message) \<and>
   compare_contents ascii_lower
     (ustr_of ''Pikachu'' @ [10] @ ustr_of ''Bulbasaur'')
     (ustr_of ''pikachu'' @ [10] @ ustr_of ''Charmander'' @ [13, 10] @ ustr_of ''BULBASAUR'' @ [10] @
      ustr_of ''Charmander'') =
   HTML_UI_format (ustr_of ''You are missing 1 Pok'' @ [233] @ ustr_of ''mon from the list:'' @
     [10, 10] @ ustr_of ''Charmander'')"
proof -
  have n: "ustr_of ''Mew'' \<noteq> []" "ustr_of ''Pikachu'' \<noteq> []"
    by (simp_all add: ustr_of_def)
  show ?thesis
    using
      validation_error_iff_some_content_empty [of ascii_lower "ustr_of ''Mew''" "ustr_of ''Pikachu''"]
      validation_error_iff_some_content_empty [of ascii_lower "ustr_of ''Mew''" "[]"]
      validation_error_iff_some_content_empty [of ascii_lower "[]" "[]"]
      n compare_example
    by blast
qed

text \<open>
  Claim C4 as stated (the error occurs precisely when both contents are empty) fails
  when the owned content is \<open>Pikachu\<close> and the checklist content is empty: the error is
  reported, and the contents are not both empty.
\<close>

theorem error_when_only_checklist_empty_counterexample:
  "\<not> (compare_contents ascii_lower (ustr_of ''Pikachu'') [] = HTML_UI_format (escape error_message)
        \<longleftrightarrow> ustr_of ''Pikachu'' = [] \<and> ([] :: ustr) = [])"
  by (simp add: compare_contents_def ustr_of_def)

text \<open>
  Claim C5. With empty owned content (the pasted text empty or absent, no file) and
  the checklist content \<open>Pikachu\<close>, the validation error is reported, not the page of
  a comparison that found nothing missing.
\<close>

theorem empty_owned_is_validation_error:
  "compare_contents lower [] (ustr_of ''Pikachu'') = HTML_UI_format (escape error_message) \<and>
   compare_contents lower [] (ustr_of ''Pikachu'') \<noteq>
     HTML_UI_format (escape (join [10] (result_lines []))) \<and>
   compare_lists lower None (Some []) None (Some (ustr_of ''Pikachu'')) =
     Inr (HTML_UI_format (escape error_message)) \<and>
   compare_lists lower None None None (Some (ustr_of ''Pikachu'')) =
     Inr (HTML_UI_format (escape error_message))"
  using result_block_not_error [of "[]"]
  by (auto simp: compare_contents_def compare_lists_def get_content_def text_or_empty_def)

text \<open>The scenario with the lowercasing of ASCII.\<close>

theorem empty_owned_is_validation_error_witness:
  "compare_contents ascii_lower [] (ustr_of ''Pikachu'') = HTML_UI_format (escape error_message) \<and>
   compare_contents ascii_lower [] (ustr_of ''Pikachu'') \<noteq>
     HTML_UI_format (escape congratulations)"
proof -
  have r: "join [10] (result_lines []) = congratulations"
    by (simp add: result_lines_def)
  show ?thesis
    using empty_owned_is_validation_error [of ascii_lower] unfolding r by blast
qed

lemma set_table_add: "set (table_add layout x t) = insert x (set t)"
proof -
  have "set (layout (t @ [x])) = insert x (set t)"
    if "mset (layout (t @ [x])) = mset (t @ [x])"
    using mset_eq_setD [OF that] by simp
  then show ?thesis
    by (auto simp: table_add_def)
qed

lemma set_owned_names_lower_table:
  "set (owned_names_lower_table layout lower names t) = set t \<union> set (map lower names)"
  by (induction names arbitrary: t) (auto simp: set_table_add)

lemma scan_checklist_tables_eq:
  "fst (scan_checklist_tables layout lower owned names (missing, seen)) =
     fst (scan_checklist lower (set owned) names (missing, set seen))"
proof (induction names arbitrary: missing seen)
  case Nil
  show ?case by simp
next
  case (Cons name names)
  show ?case
    using Cons.IH [of "missing @ [name]" "table_add layout (lower name) seen"]
      Cons.IH [of missing seen]
    by (simp add: Let_def set_table_add)
qed

lemma missing_pokemon_tables_eq:
  "missing_pokemon_tables layout lower owned_names checklist_names =
     missing_pokemon lower owned_names checklist_names"
  using scan_checklist_tables_eq
    [of layout lower "owned_names_lower_table layout lower owned_names []" checklist_names "[]" "[]"]
  by (simp add: missing_pokemon_tables_def missing_pokemon_def owned_names_lower_set_def
      set_owned_names_lower_table)

lemma compare_contents_tables_eq:
  "compare_contents_tables layout lower owned_content checklist_content =
     compare_contents lower owned_content checklist_content"
  by (simp add: compare_contents_tables_def compare_contents_def missing_pokemon_tables_eq)

text \<open>
  Claim C8. Two runs on equal owned contents and equal checklist contents give equal
  pages, equal missing lists and equal counts, whatever the state outside the two
  contents is in each run: \<open>layout\<close> and \<open>layout'\<close> are the layouts of the hash tables
  of the sets in the two runs, the only state outside its inputs that the computation
  touches.
\<close>

theorem compare_contents_deterministic:
  assumes "owned_content = owned_content'" and "checklist_content = checklist_content'"
  shows "compare_contents_tables layout lower owned_content checklist_content =
           compare_contents_tables layout' lower owned_content' checklist_content' \<and>
         missing_pokemon_tables layout lower (parse_pokemon_list (Some owned_content))
             (parse_pokemon_list (Some checklist_content)) =
           missing_pokemon_tables layout' lower (parse_pokemon_list (Some owned_content'))
             (parse_pokemon_list (Some checklist_content')) \<and>
         length (missing_pokemon_tables layout lower (parse_pokemon_list (Some owned_content))
             (parse_pokemon_list (Some checklist_content))) =
           length (missing_pokemon_tables layout' lower (parse_pokemon_list (Some owned_content'))
             (parse_pokemon_list (Some checklist_content')))"
  using assms by (simp add: compare_contents_tables_eq missing_pokemon_tables_eq)

text \<open>
  The specification's first scenario in two runs, the tables of one in the order of
  insertion, those of the other reversed at every insertion: the owned set is held in
  two different orders, and the pages are equal.
\<close>

theorem compare_contents_deterministic_witness:
  "owned_names_lower_table (\<lambda>t. t) ascii_lower (map ustr_of [''Pikachu'', ''Bulbasaur'']) [] =
     map ustr_of [''pikachu'', ''bulbasaur''] \<and>
   owned_names_lower_table rev ascii_lower (map ustr_of [''Pikachu'', ''Bulbasaur'']) [] =
     map ustr_of [''bulbasaur'', ''pikachu''] \<and>
   compare_contents_tables (\<lambda>t. t) ascii_lower
     (ustr_of ''Pikachu'' @ [10] @ ustr_of ''Bulbasaur'')
     (ustr_of ''pikachu'' @ [10] @ ustr_of ''Charmander'' @ [13, 10] @ ustr_of ''BULBASAUR'' @ [10] @
      ustr_of ''Charmander'') =
   HTML_UI_format (ustr_of ''You are missing 1 Pok'' @ [233] @ ustr_of ''mon from the list:'' @
     [10, 10] @ ustr_of ''Charmander'') \<and>
   compare_contents_tables rev ascii_lower
     (ustr_of ''Pikachu'' @ [10] @ ustr_of ''Bulbasaur'')
     (ustr_of ''pikachu'' @ [10] @ ustr_of ''Charmander'' @ [13, 10] @ ustr_of ''BULBASAUR'' @ [10] @
      ustr_of ''Charmander'') =
   HTML_UI_format (ustr_of ''You are missing 1 Pok'' @ [233] @ ustr_of ''mon from the list:'' @
     [10, 10] @ ustr_of ''Charmander'')"
proof -
  have t1: "owned_names_lower_table (\<lambda>t. t) ascii_lower (map ustr_of [''Pikachu'', ''Bulbasaur'']) [] =
     map ustr_of [''pikachu'', ''bulbasaur'']"
    by (simp add: table_add_def ustr_of_def ascii_lower_def)
  have t2: "owned_names_lower_table rev ascii_lower (map ustr_of [''Pikachu'', ''Bulbasaur'']) [] =
     map ustr_of [''bulbasaur'', ''pikachu'']"
    by (simp add: table_add_def ustr_of_def ascii_lower_def)
  have run: "compare_contents_tables (\<lambda>t. t) ascii_lower
     (ustr_of ''Pikachu'' @ [10] @ ustr_of ''Bulbasaur'')
     (ustr_of ''pikachu'' @ [10] @ ustr_of ''Charmander'' @ [13, 10] @ ustr_of ''BULBASAUR'' @ [10] @
      ustr_of ''Charmander'') =
   HTML_UI_format (ustr_of ''You are missing 1 Pok'' @ [233] @ ustr_of ''mon from the list:'' @
     [10, 10] @ ustr_of ''Charmander'')"
    by (simp add: compare_contents_tables_def parse_pokemon_list_def splitlines_def ustr_of_def
        is_linebreak_def strip_def is_space_def missing_pokemon_tables_def table_add_def
        ascii_lower_def Let_def result_lines_def missing_header_def str_of_nat.simps escape_def
        replace_char_def)
  show ?thesis
    using compare_contents_deterministic [OF refl refl, of "\<lambda>t. t" ascii_lower
      "ustr_of ''Pikachu'' @ [10] @ ustr_of ''Bulbasaur''"
      "ustr_of ''pikachu'' @ [10] @ ustr_of ''Charmander'' @ [13, 10] @ ustr_of ''BULBASAUR'' @ [10] @
       ustr_of ''Charmander''" rev] t1 t2 run
    by simp
qed

text \<open>
  Claim C9. The validation is decided on the contents as given: a content that is not
  empty and consists of whitespace only parses to no name, yet, as owned content or as
  checklist content, it passes the validation: the error is reported only if the
  other content is empty; otherwise the comparison proceeds, with no owned name when
  it is the owned content, with nothing to check when it is the checklist content.
\<close>

theorem whitespace_only_passes_validation:
  assumes "content \<noteq> []" and "\<forall>c \<in> set content. is_space c"
  shows "parse_pokemon_list (Some content) = [] \<and>
         (compare_contents lower content other =
            HTML_UI_format (escape error_message) \<longleftrightarrow> other = []) \<and>
         (other \<noteq> [] \<longrightarrow>
            compare_contents lower content other =
              HTML_UI_format (escape (join [10] (result_lines
                (missing_pokemon lower [] (parse_pokemon_list (Some other))))))) \<and>
         (compare_contents lower other content =
            HTML_UI_format (escape error_message) \<longleftrightarrow> other = []) \<and>
         (other \<noteq> [] \<longrightarrow>
            compare_contents lower other content = HTML_UI_format (escape congratulations))"
proof -
  have p: "parse_pokemon_list (Some content) = []"
    using assms(2) by (rule parse_whitespace_only)
  have c: "join [10] (result_lines (missing_pokemon lower names [])) = congratulations" for names
    by (simp add: missing_pokemon_def result_lines_def)
  have ce: "escape congratulations \<noteq> escape error_message"
    using result_block_not_error [of "[]"] by (simp add: result_lines_def)
  show ?thesis
    using assms(1) p
    by (simp add: compare_contents_def Let_def result_block_not_error c ce)
qed

text \<open>
  Three spaces as owned content; a space, a tabulation and a line feed as checklist
  content.
\<close>

theorem whitespace_only_passes_validation_witness:
  "parse_pokemon_list (Some [32, 32, 32]) = [] \<and>
   compare_contents ascii_lower [32, 32, 32] (ustr_of ''Pikachu'') \<noteq>
     HTML_UI_format (escape error_message) \<and>
   compare_contents ascii_lower [32, 32, 32] (ustr_of ''Pikachu'') =
     HTML_UI_format (ustr_of ''You are missing 1 Pok'' @ [233] @ ustr_of ''mon from the list:'' @
       [10, 10] @ ustr_of ''Pikachu'') \<and>
   parse_pokemon_list (Some [32, 9, 10]) = [] \<and>
   compare_contents ascii_lower (ustr_of ''Pikachu'') [32, 9, 10] \<noteq>
     HTML_UI_format (escape error_message) \<and>
   compare_contents ascii_lower (ustr_of ''Pikachu'') [32, 9, 10] =
     HTML_UI_format (escape congratulations)"
proof -
  have ne: "[32, 32, 32] \<noteq> ([] :: ustr)" "[32, 9, 10] \<noteq> ([] :: ustr)"
    by simp_all
  have ws: "\<forall>c \<in> set [32, 32, 32]. is_space c" "\<forall>c \<in> set [32, 9, 10]. is_space c"
    by (simp_all add: is_space_def)
  have run: "compare_contents ascii_lower [32, 32, 32] (ustr_of ''Pikachu'') =
     HTML_UI_format (ustr_of ''You are missing 1 Pok'' @ [233] @ ustr_of ''mon from the list:'' @
       [10, 10] @ ustr_of ''Pikachu'')"
    by (simp add: compare_contents_def parse_pokemon_list_def splitlines_def ustr_of_def
        is_linebreak_def strip_def is_space_def missing_pokemon_def owned_names_lower_set_def
        ascii_lower_def Let_def result_lines_def missing_header_def str_of_nat.simps escape_def
        replace_char_def)
  have nonempty: "ustr_of ''Pikachu'' \<noteq> []"
    by (simp add: ustr_of_def)
  show ?thesis
    using
      whitespace_only_passes_validation [OF ne(1) ws(1), of ascii_lower "ustr_of ''Pikachu''"]
      whitespace_only_passes_validation [OF ne(2) ws(2), of ascii_lower "ustr_of ''Pikachu''"]
      run nonempty
    by blast
qed

section \<open>Decoding and the fallback to the pasted text\<close>


lemma utf8_step_Decoded_prefix:
  assumes "utf8_step b bs = Decoded c rest"
  shows "\<exists>p. bs = p @ rest \<and> (\<forall>rest'. utf8_step b (p @ rest') = Decoded c rest')"
proof -
  let ?p = "take (length bs - length rest) bs"
  have "bs = ?p @ rest \<and> (\<forall>rest'. utf8_step b (?p @ rest') = Decoded c rest')"
    using assms by (auto simp: utf8_step_def Let_def split: if_splits list.splits)
  then show ?thesis by blast
qed



lemma decode_utf8_strict_imp_ignore:
  "decode_utf8 Strict bs = Inr s \<Longrightarrow> decode_utf8 Ignore bs = Inr s"
proof (induction bs arbitrary: s rule: length_induct)
  case (1 bs)
  show ?case
  proof (cases bs)
    case Nil
    with 1 show ?thesis by simp
  next
    case (Cons b bs')
    show ?thesis
    proof (cases "utf8_step b bs'")
      case (Decoded c rest)
      then have "suffix rest bs'"
        using utf8_step_Decoded_prefix [OF Decoded] by (auto simp: suffix_def)
      then have len: "length rest < length bs"
        using Cons by (auto dest: suffix_length_le)
      from 1(2) Cons Decoded obtain s' where s': "decode_utf8 Strict rest = Inr s'" "s = c # s'"
        by (auto split: sum.splits)
      from 1(1) len s'(1) have "decode_utf8 Ignore rest = Inr s'" by blast
      with Cons Decoded s'(2) show ?thesis by simp
    next
      case (Undecodable rest)
      with 1(2) Cons show ?thesis by simp
    qed
  qed
qed





end
